theory Spec2Isabelle
  imports Complex_Main "HOL-Library.Sublist"
begin

section \<open>Python values, errors and built-ins used by audit.py\<close>

text \<open>
  The record built by \<^verbatim>\<open>run_hardware_scan\<close> and extended by \<^verbatim>\<open>main\<close> is a Python
  dictionary from field names to values. The values that occur are strings and integers;
  \<^verbatim>\<open>None\<close> is included so that a value of a foreign type can be written down.
  Strings are lists of characters with code points below 256.
\<close>

datatype pyval = PStr string | PInt int | PNone

datatype py_error =
    ValueError | TypeError | OverflowError | ZeroDivisionError | IsADirectoryError
  | TimeoutExpired | OSError | UnicodeDecodeError
  | KeyboardInterrupt | SystemExit

definition is_Exception :: "py_error \<Rightarrow> bool" where
  \<comment> \<open>membership in the class \<^verbatim>\<open>Exception\<close>, which is what \<^verbatim>\<open>except Exception\<close> catches:
     \<^verbatim>\<open>KeyboardInterrupt\<close> and \<^verbatim>\<open>SystemExit\<close> derive from \<^verbatim>\<open>BaseException\<close> only\<close>
  "is_Exception e = (e \<noteq> KeyboardInterrupt \<and> e \<noteq> SystemExit)"

type_synonym pydict = "string \<rightharpoonup> pyval"

definition dict_get :: "pydict \<Rightarrow> string \<Rightarrow> pyval \<Rightarrow> pyval" where
  \<comment> \<open>\<^verbatim>\<open>d.get(k, default)\<close>\<close>
  "dict_get d k dflt = (case d k of None \<Rightarrow> dflt | Some v \<Rightarrow> v)"

definition is_digit :: "char \<Rightarrow> bool" where
  "is_digit c = (c \<in> set ''0123456789'')"

definition digit_val :: "char \<Rightarrow> nat" where
  "digit_val c = of_char c - 48"

definition is_space :: "char \<Rightarrow> bool" where
  \<comment> \<open>\<^verbatim>\<open>str.isspace\<close>, which is also the class \<^verbatim>\<open>\s\<close> of \<^verbatim>\<open>re\<close>, below code point 256\<close>
  "is_space c = ((of_char c :: nat) \<in> {9, 10, 11, 12, 13, 28, 29, 30, 31, 32, 133, 160})"

definition is_int_space :: "char \<Rightarrow> bool" where
  \<comment> \<open>what \<^verbatim>\<open>int()\<close> skips at the two ends of a string: the C-locale whitespace, and a
     character above 127 that \<^verbatim>\<open>str.isspace\<close> accepts, which is replaced by a blank
     before the number is read. The separators 28 to 31 are not skipped, in any string.\<close>
  "is_int_space c = ((of_char c :: nat) \<in> {9, 10, 11, 12, 13, 32, 133, 160})"

definition int_max_str_digits :: nat where
  \<comment> \<open>\<^verbatim>\<open>sys.int_info.default_max_str_digits\<close>: the most digits that \<^verbatim>\<open>int()\<close> converts, in
     CPython 3.11 and later and in the security releases of 3.7 to 3.10\<close>
  "int_max_str_digits = 4300"

definition strip_with :: "(char \<Rightarrow> bool) \<Rightarrow> string \<Rightarrow> string" where
  "strip_with p s = rev (dropWhile p (rev (dropWhile p s)))"

definition py_strip :: "string \<Rightarrow> string" where
  \<comment> \<open>\<^verbatim>\<open>s.strip()\<close>\<close>
  "py_strip s = strip_with is_space s"

fun digits_ok :: "string \<Rightarrow> bool" where
  \<comment> \<open>after a digit: more digits, each optionally preceded by one underscore\<close>
  "digits_ok [] = True"
| "digits_ok [c] = is_digit c"
| "digits_ok (c # d # cs) =
     (if c = CHR ''_'' then is_digit d \<and> digits_ok cs else is_digit c \<and> digits_ok (d # cs))"

definition int_literal_ok :: "string \<Rightarrow> bool" where
  "int_literal_ok s = (case s of [] \<Rightarrow> False | c # cs \<Rightarrow> is_digit c \<and> digits_ok cs)"

definition decimal_val :: "string \<Rightarrow> nat" where
  \<comment> \<open>the value of the decimal digits of a literal, underscores skipped\<close>
  "decimal_val s = foldl (\<lambda>acc c. 10 * acc + digit_val c) 0 (filter is_digit s)"

definition int_of_str :: "string \<Rightarrow> int option" where
  \<comment> \<open>\<^verbatim>\<open>int(s)\<close> for a string: surrounding whitespace, an optional sign, decimal digits
     with single underscores between them; \<open>None\<close> stands for \<^verbatim>\<open>ValueError\<close>, which is
     also raised when there are more digits than the limit (the underscores, the sign
     and the whitespace are not counted, leading zeros are)\<close>
  "int_of_str s =
     (let t = strip_with is_int_space s;
          (neg, body) = (case t of
                           [] \<Rightarrow> (False, [])
                         | c # cs \<Rightarrow> if c = CHR ''-'' then (True, cs)
                                    else if c = CHR ''+'' then (False, cs)
                                    else (False, t))
      in if int_literal_ok body \<and> length (filter is_digit body) \<le> int_max_str_digits
         then Some (if neg then - int (decimal_val body) else int (decimal_val body))
         else None)"

definition py_int :: "pyval \<Rightarrow> py_error + int" where
  \<comment> \<open>\<^verbatim>\<open>int(v)\<close>\<close>
  "py_int v = (case v of
       PStr s \<Rightarrow> (case int_of_str s of None \<Rightarrow> Inl ValueError | Some n \<Rightarrow> Inr n)
     | PInt n \<Rightarrow> Inr n
     | PNone \<Rightarrow> Inl TypeError)"

definition py_ge_int :: "pyval \<Rightarrow> int \<Rightarrow> py_error + bool" where
  \<comment> \<open>\<^verbatim>\<open>v >= n\<close> for an integer \<^verbatim>\<open>n\<close>: only numbers are ordered against numbers\<close>
  "py_ge_int v n = (case v of PInt m \<Rightarrow> Inr (m \<ge> n) | _ \<Rightarrow> Inl TypeError)"

section \<open>Phase 3: the recommendation\<close>

definition PARTS_REPAIR :: string where "PARTS_REPAIR = ''PARTS/REPAIR''"
definition HIGH_VALUE :: string where "HIGH_VALUE = ''HIGH VALUE (Gaming/Creator)''"
definition STANDARD_RESALE :: string where "STANDARD_RESALE = ''Standard Resale''"
definition BAD_BATTERY_DISCOUNT :: string where "BAD_BATTERY_DISCOUNT = ''Bad Battery (Discount)''"

definition parse_batt :: "pydict \<Rightarrow> py_error + int" where
  \<comment> \<open>the \<^verbatim>\<open>try: batt = int(...) except ValueError: batt = 0\<close> block; any other
     exception leaves the function\<close>
  "parse_batt data = (case py_int (dict_get data ''battery_pct'' (PStr ''0'')) of
       Inl ValueError \<Rightarrow> Inr 0
     | Inl e \<Rightarrow> Inl e
     | Inr n \<Rightarrow> Inr n)"

definition compute_recommendation :: "pydict \<Rightarrow> py_error + string" where
  "compute_recommendation data =
     (let smart = dict_get data ''smart_status'' (PStr ''N/A'');
          screen = dict_get data ''screen_grade'' (PStr '''');
          chassis = dict_get data ''chassis_grade'' (PStr '''');
          gpu = dict_get data ''gpu'' (PStr ''None'');
          cpu_gen = dict_get data ''_cpu_gen'' (PInt 0)
      in case parse_batt data of
           Inl e \<Rightarrow> Inl e
         | Inr batt \<Rightarrow>
             if smart = PStr ''FAILED'' \<or> screen = PStr ''C'' \<or> chassis = PStr ''C''
             then Inr PARTS_REPAIR
             else if gpu \<noteq> PStr ''None'' then Inr HIGH_VALUE
             else (case py_ge_int cpu_gen 8 of
                     Inl e \<Rightarrow> Inl e
                   | Inr ge8 \<Rightarrow>
                       if ge8 \<and> batt > 65 then Inr STANDARD_RESALE
                       else if batt < 60 then Inr BAD_BATTERY_DISCOUNT
                       else Inr STANDARD_RESALE))"

definition batt_typed :: "pydict \<Rightarrow> bool" where
  \<comment> \<open>\<^verbatim>\<open>battery_pct\<close> as the scan writes it (a string), or an integer, or absent\<close>
  "batt_typed data = (case data ''battery_pct'' of Some PNone \<Rightarrow> False | _ \<Rightarrow> True)"

definition gen_typed :: "pydict \<Rightarrow> bool" where
  \<comment> \<open>\<^verbatim>\<open>_cpu_gen\<close> as the scan writes it (an integer), or absent\<close>
  "gen_typed data = (case data ''_cpu_gen'' of Some (PStr _) \<Rightarrow> False | Some PNone \<Rightarrow> False | _ \<Rightarrow> True)"

definition rule1 :: "pydict \<Rightarrow> bool" where
  "rule1 data = (data ''smart_status'' = Some (PStr ''FAILED'')
               \<or> data ''screen_grade'' = Some (PStr ''C'')
               \<or> data ''chassis_grade'' = Some (PStr ''C''))"

definition fill_defaults :: "pydict \<Rightarrow> pydict" where
  \<comment> \<open>the record with every key that \<^verbatim>\<open>compute_recommendation\<close> reads present: a missing
     key holds the default of its \<^verbatim>\<open>get\<close>\<close>
  "fill_defaults data = data
     (''smart_status'' \<mapsto> dict_get data ''smart_status'' (PStr ''N/A''),
      ''screen_grade'' \<mapsto> dict_get data ''screen_grade'' (PStr []),
      ''chassis_grade'' \<mapsto> dict_get data ''chassis_grade'' (PStr []),
      ''gpu'' \<mapsto> dict_get data ''gpu'' (PStr ''None''),
      ''_cpu_gen'' \<mapsto> dict_get data ''_cpu_gen'' (PInt 0),
      ''battery_pct'' \<mapsto> dict_get data ''battery_pct'' (PStr ''0''))"

section \<open>Substring tests, line splitting and regular-expression searches\<close>

fun contains :: "string \<Rightarrow> string \<Rightarrow> bool" where
  \<comment> \<open>\<^verbatim>\<open>sub in s\<close>\<close>
  "contains sub [] = (sub = [])"
| "contains sub (c # cs) = (prefix sub (c # cs) \<or> contains sub cs)"




fun re_search :: "(string \<Rightarrow> 'a option) \<Rightarrow> string \<Rightarrow> 'a option" where
  \<comment> \<open>\<^verbatim>\<open>re.search\<close>: the match at the leftmost position where the pattern matches\<close>
  "re_search m [] = m []"
| "re_search m (c # cs) = (case m (c # cs) of Some g \<Rightarrow> Some g | None \<Rightarrow> re_search m cs)"

definition intel_at :: "string \<Rightarrow> string option" where
  \<comment> \<open>group 1 of \<^verbatim>\<open>i[3579]-(\d{2,5})\<close> matched at the start of the string; the
     quantifier is greedy, so the group is the longest run of at most five digits\<close>
  "intel_at s = (case s of
       i # t # h # rest \<Rightarrow>
         if i = CHR ''i'' \<and> t \<in> set ''3579'' \<and> h = CHR ''-''
         then (let ds = takeWhile is_digit (take 5 rest)
               in if 2 \<le> length ds then Some ds else None)
         else None
     | _ \<Rightarrow> None)"

definition ryzen_at :: "string \<Rightarrow> char option" where
  \<comment> \<open>group 1 of \<^verbatim>\<open>Ryzen\s+\d\s+(\d)\<close> matched at the start of the string\<close>
  "ryzen_at s =
     (if prefix ''Ryzen'' s
      then (let r = drop 5 s
            in if takeWhile is_space r = [] then None
               else (case dropWhile is_space r of
                       d # r' \<Rightarrow>
                         if is_digit d \<and> takeWhile is_space r' \<noteq> []
                         then (case dropWhile is_space r' of
                                 g # _ \<Rightarrow> if is_digit g then Some g else None
                               | [] \<Rightarrow> None)
                         else None
                     | [] \<Rightarrow> None))
      else None)"

definition ryzen_generation :: "string \<Rightarrow> int" where
  \<comment> \<open>the part of \<^verbatim>\<open>parse_cpu_generation\<close> after the Intel branch\<close>
  "ryzen_generation cpu_model =
     (case re_search ryzen_at cpu_model of Some g \<Rightarrow> int (decimal_val [g]) | None \<Rightarrow> 0)"

definition parse_cpu_generation :: "string \<Rightarrow> int" where
  "parse_cpu_generation cpu_model =
     (case re_search intel_at cpu_model of
        Some model_num \<Rightarrow>
          if length model_num = 4 then int (decimal_val (take 1 model_num))
          else if length model_num = 5 then int (decimal_val (take 2 model_num))
          else ryzen_generation cpu_model
      | None \<Rightarrow> ryzen_generation cpu_model)"

section \<open>Floating-point numbers\<close>

text \<open>
  Python floats are IEEE 754 binary64 numbers. The finite ones are kept as the rationals
  they denote; every operation computes the exact result and rounds it to the nearest
  representable number, ties to the even significand. Only floats that are not negative
  occur in audit.py (the tokens parsed never carry a sign), so there is one infinity
  and the two zeros are not told apart.
\<close>

datatype pyfloat = Fin rat | Inf | NaN

fun bit_length :: "nat \<Rightarrow> nat" where
  "bit_length n = (if n = 0 then 0 else Suc (bit_length (n div 2)))"

definition pow2 :: "int \<Rightarrow> rat" where
  "pow2 e = (if 0 \<le> e then 2 ^ nat e else 1 / 2 ^ nat (- e))"

definition floor_log2 :: "rat \<Rightarrow> int" where
  \<comment> \<open>for \<open>a > 0\<close>, the \<open>k\<close> with \<open>2 ^ k \<le> a < 2 ^ (k + 1)\<close>\<close>
  "floor_log2 a =
     (let (p, q) = quotient_of a;
          d = int (bit_length (nat p)) - int (bit_length (nat q))
      in if pow2 d \<le> a then d else d - 1)"

definition round_half_even :: "rat \<Rightarrow> int" where
  "round_half_even x =
     (let f = \<lfloor>x\<rfloor>; r = x - of_int f
      in if r < 1 / 2 then f else if 1 / 2 < r then f + 1 else if even f then f else f + 1)"

definition to_double :: "rat \<Rightarrow> rat option" where
  \<comment> \<open>the binary64 number nearest to a rational: 53 significant bits, least exponent
     \<open>-1074\<close>; \<open>None\<close> when the rounded magnitude reaches \<open>2 ^ 1024\<close>\<close>
  "to_double x =
     (if x = 0 then Some 0
      else (let a = \<bar>x\<bar>;
                e = max (floor_log2 a - 52) (- 1074);
                r = of_int (round_half_even (a / pow2 e)) * pow2 e
            in if pow2 1024 \<le> r then None else Some (if x < 0 then - r else r)))"







definition py_round :: "pyfloat \<Rightarrow> py_error + int" where
  \<comment> \<open>\<^verbatim>\<open>round(x)\<close> with one argument: the nearest integer, ties to even\<close>
  "py_round x = (case x of
       Fin a \<Rightarrow> Inr (round_half_even a)
     | Inf \<Rightarrow> Inl OverflowError
     | NaN \<Rightarrow> Inl ValueError)"

definition int_true_div :: "int \<Rightarrow> int \<Rightarrow> py_error + pyfloat" where
  \<comment> \<open>\<^verbatim>\<open>a / b\<close> on integers: the correctly rounded quotient; a quotient too large for
     a float raises\<close>
  "int_true_div a b =
     (if b = 0 then Inl ZeroDivisionError
      else (case to_double (of_int a / of_int b) of
              None \<Rightarrow> Inl OverflowError
            | Some r \<Rightarrow> Inr (Fin r)))"



section \<open>The command probe\<close>

text \<open>
  \<^verbatim>\<open>subprocess.run\<close> either returns a completed process, with its exit status and
  the text of its standard output, or raises: the timeout, a failure to start the shell,
  a failure to decode the output, and also what is no error of the command, such as the
  \<^verbatim>\<open>KeyboardInterrupt\<close> of a user who presses Ctrl-C while the command runs. The operating
  system is a function from the command line and the timeout to that outcome.
\<close>

datatype proc_outcome = Completed (returncode: int) (stdout: string) | Raised py_error

type_synonym shell = "string \<Rightarrow> nat \<Rightarrow> proc_outcome"

definition run :: "shell \<Rightarrow> string \<Rightarrow> nat \<Rightarrow> py_error + string" where
  \<comment> \<open>the body of \<^verbatim>\<open>try\<close> returns the stripped output and never reads the exit status;
     \<^verbatim>\<open>except Exception\<close> returns the empty string; an exception outside the class
     \<^verbatim>\<open>Exception\<close> is not caught and leaves the function\<close>
  "run sh cmd timeout = (case sh cmd timeout of
       Completed rc out \<Rightarrow> Inr (py_strip out)
     | Raised e \<Rightarrow> if is_Exception e then Inr [] else Inl e)"

definition default_timeout :: nat where
  "default_timeout = 15"

section \<open>Storage and battery probes\<close>

definition capacity_of :: "string \<Rightarrow> py_error + int" where
  \<comment> \<open>\<^verbatim>\<open>round(int(size_bytes) / 1_000_000_000)\<close>, and 0 when \<^verbatim>\<open>ValueError\<close> is raised;
     the division can raise \<^verbatim>\<open>OverflowError\<close>, which is not caught\<close>
  "capacity_of size_bytes = (case int_of_str size_bytes of
       None \<Rightarrow> Inr 0
     | Some n \<Rightarrow> (case int_true_div n 1000000000 of
                   Inl e \<Rightarrow> (if e = ValueError then Inr 0 else Inl e)
                 | Inr q \<Rightarrow> (case py_round q of
                              Inl e \<Rightarrow> (if e = ValueError then Inr 0 else Inl e)
                            | Inr g \<Rightarrow> Inr g)))"

definition smart_status_of :: "string \<Rightarrow> string" where
  \<comment> \<open>the \<^verbatim>\<open>if\<close>/\<^verbatim>\<open>elif\<close>/\<^verbatim>\<open>else\<close> on the output of \<^verbatim>\<open>smartctl -H\<close>\<close>
  "smart_status_of smart_out =
     (if contains ''PASSED'' smart_out then ''PASSED''
      else if contains ''FAILED'' smart_out then ''FAILED''
      else ''N/A'')"

definition get_storage_info ::
  "shell \<Rightarrow> string \<Rightarrow> (py_error + string \<times> int \<times> string) \<times> string list" where
  \<comment> \<open>the result, and the commands passed to \<^verbatim>\<open>run\<close>, in the order of the calls; an
     exception that leaves \<^verbatim>\<open>run\<close> leaves this function too\<close>
  "get_storage_info sh disk =
     (if disk = [] then (Inr (''N/A'', 0, ''N/A''), [])
      else (let stor_type = (if contains ''nvme'' disk then ''NVMe'' else ''SATA'');
                size_cmd = ''lsblk -bdn -o SIZE '' @ disk
            in case run sh size_cmd default_timeout of
                 Inl e \<Rightarrow> (Inl e, [size_cmd])
               | Inr size_bytes \<Rightarrow>
                   (case capacity_of size_bytes of
                      Inl e \<Rightarrow> (Inl e, [size_cmd])
                    | Inr capacity_gb \<Rightarrow>
                        (let smart_cmd = ''smartctl -H '' @ disk
                         in case run sh smart_cmd default_timeout of
                              Inl e \<Rightarrow> (Inl e, [size_cmd, smart_cmd])
                            | Inr smart_out \<Rightarrow>
                                (Inr (stor_type, capacity_gb, smart_status_of smart_out),
                                 [size_cmd, smart_cmd])))))"










section \<open>Phase 4: the ledger\<close>















section \<open>Properties of \<^verbatim>\<open>strip\<close> and \<^verbatim>\<open>int\<close>\<close>

lemma strip_with_decomp:
  "\<exists>pre suf. s = pre @ strip_with p s @ suf \<and> (\<forall>c \<in> set pre. p c) \<and> (\<forall>c \<in> set suf. p c)"
proof -
  let ?d = "dropWhile p s"
  have 1: "s = takeWhile p s @ ?d" by simp
  have "rev (takeWhile p (rev ?d) @ dropWhile p (rev ?d)) = rev (rev ?d)"
    by (simp only: takeWhile_dropWhile_id)
  then have 2: "?d = strip_with p s @ rev (takeWhile p (rev ?d))"
    by (simp only: rev_append rev_rev_ident strip_with_def)
  have 3: "\<forall>c \<in> set (takeWhile p s). p c" by (auto dest: set_takeWhileD)
  have 4: "\<forall>c \<in> set (rev (takeWhile p (rev ?d))). p c" by (auto dest: set_takeWhileD)
  from 1 2 have "s = takeWhile p s @ strip_with p s @ rev (takeWhile p (rev ?d))" by simp
  with 3 4 show ?thesis by blast
qed

lemma strip_with_ends:
  assumes "strip_with p s \<noteq> []"
  shows "\<not> p (hd (strip_with p s)) \<and> \<not> p (last (strip_with p s))"
proof -
  let ?d = "dropWhile p s"
  let ?e = "dropWhile p (rev ?d)"
  from assms have e: "?e \<noteq> []" by (simp add: strip_with_def)
  then have l: "\<not> p (hd ?e)" by (rule hd_dropWhile)
  have "last (strip_with p s) = hd ?e" using e by (simp add: strip_with_def last_rev)
  with l have last: "\<not> p (last (strip_with p s))" by simp
  have "dropWhile p (rev xs) = []" if "xs = []" for xs :: string
    using that by simp
  from this [of ?d] e have d: "?d \<noteq> []" by blast
  then have hd: "\<not> p (hd ?d)" by (rule hd_dropWhile)
  have "?d = strip_with p s @ rev (takeWhile p (rev ?d))"
  proof -
    have "rev (takeWhile p (rev ?d) @ ?e) = rev (rev ?d)"
      by (simp only: takeWhile_dropWhile_id)
    then show ?thesis by (simp only: rev_append rev_rev_ident strip_with_def)
  qed
  then have "hd ?d = hd (strip_with p s)" using assms by (metis hd_append2)
  with hd last show ?thesis by simp
qed

lemma int_space_not_digit: "is_int_space c \<Longrightarrow> \<not> is_digit c"
  by (auto simp: is_int_space_def is_digit_def)

lemma filter_digit_strip: "filter is_digit (strip_with is_int_space s) = filter is_digit s"
proof -
  let ?t = "strip_with is_int_space s"
  from strip_with_decomp [of s is_int_space]
  obtain pre suf where d: "s = pre @ ?t @ suf"
    and p: "\<forall>c \<in> set pre. is_int_space c" and q: "\<forall>c \<in> set suf. is_int_space c" by blast
  from p have 1: "filter is_digit pre = []" by (auto simp: filter_empty_conv int_space_not_digit)
  from q have 2: "filter is_digit suf = []" by (auto simp: filter_empty_conv int_space_not_digit)
  have "filter is_digit (pre @ ?t @ suf) = filter is_digit ?t" by (simp add: 1 2)
  with d show ?thesis by metis
qed

lemma int_of_str_over_limit:
  assumes "int_max_str_digits < length (filter is_digit s)"
  shows "int_of_str s = None"
proof -
  let ?t = "strip_with is_int_space s"
  have sign: "\<not> is_digit CHR ''-''" "\<not> is_digit CHR ''+''" by (simp_all add: is_digit_def)
  from assms have l: "int_max_str_digits < length (filter is_digit ?t)"
    by (simp only: filter_digit_strip)
  show ?thesis
  proof (cases ?t)
    case Nil
    then show ?thesis by (simp add: int_of_str_def int_literal_ok_def)
  next
    case (Cons c cs)
    with l sign show ?thesis by (auto simp: int_of_str_def)
  qed
qed

lemma int_of_str_4301: "int_of_str (replicate 4301 CHR ''1'') = None"
  by (rule int_of_str_over_limit) (simp add: int_max_str_digits_def is_digit_def)


section \<open>Properties of the recommendation\<close>

lemma parse_batt_typed: "batt_typed data \<Longrightarrow> \<exists>n. parse_batt data = Inr n"
  by (auto simp: parse_batt_def batt_typed_def dict_get_def py_int_def
           split: option.splits pyval.splits py_error.splits sum.splits)

text \<open>
  Claim C1. For every hardware record with condition grades (a dictionary whose
  \<^verbatim>\<open>battery_pct\<close>, when present, is a string or an integer): when \<^verbatim>\<open>smart_status\<close> is
  \<^verbatim>\<open>"FAILED"\<close>, or \<^verbatim>\<open>screen_grade\<close> is \<^verbatim>\<open>"C"\<close>, or \<^verbatim>\<open>chassis_grade\<close> is \<^verbatim>\<open>"C"\<close>, the
  recommendation is \<^verbatim>\<open>PARTS/REPAIR\<close>, whatever the other fields hold; a discrete GPU
  does not turn it into the high-value label.
\<close>

theorem rule1_forces_parts_repair:
  "batt_typed data \<Longrightarrow> rule1 data \<Longrightarrow> compute_recommendation data = Inr PARTS_REPAIR"
  using parse_batt_typed [of data]
  by (auto simp: compute_recommendation_def rule1_def dict_get_def Let_def)

theorem rule1_forces_parts_repair_witness:
  "batt_typed [''smart_status'' \<mapsto> PStr ''FAILED'', ''gpu'' \<mapsto> PStr ''NVIDIA GeForce RTX 3050'',
               ''battery_pct'' \<mapsto> PStr ''80'', ''_cpu_gen'' \<mapsto> PInt 11]
   \<and> rule1 [''smart_status'' \<mapsto> PStr ''FAILED'', ''gpu'' \<mapsto> PStr ''NVIDIA GeForce RTX 3050'',
            ''battery_pct'' \<mapsto> PStr ''80'', ''_cpu_gen'' \<mapsto> PInt 11]
   \<and> compute_recommendation
        [''smart_status'' \<mapsto> PStr ''FAILED'', ''gpu'' \<mapsto> PStr ''NVIDIA GeForce RTX 3050'',
         ''battery_pct'' \<mapsto> PStr ''80'', ''_cpu_gen'' \<mapsto> PInt 11] = Inr ''PARTS/REPAIR''"
proof -
  let ?d = "[''smart_status'' \<mapsto> PStr ''FAILED'', ''gpu'' \<mapsto> PStr ''NVIDIA GeForce RTX 3050'',
             ''battery_pct'' \<mapsto> PStr ''80'', ''_cpu_gen'' \<mapsto> PInt 11]"
  have b: "batt_typed ?d" by (simp add: batt_typed_def)
  have r: "rule1 ?d" by (simp add: rule1_def)
  from rule1_forces_parts_repair [OF b r] b r show ?thesis
    by (simp add: PARTS_REPAIR_def)
qed

lemma compute_rec_cases:
  "parse_batt data = Inr batt \<Longrightarrow> \<not> rule1 data \<Longrightarrow>
   dict_get data ''gpu'' (PStr ''None'') = PStr ''None'' \<Longrightarrow>
   dict_get data ''_cpu_gen'' (PInt 0) = PInt g \<Longrightarrow>
   compute_recommendation data =
     (if 8 \<le> g \<and> 65 < batt then Inr STANDARD_RESALE
      else if batt < 60 then Inr BAD_BATTERY_DISCOUNT else Inr STANDARD_RESALE)"
  by (auto simp: compute_recommendation_def rule1_def dict_get_def py_ge_int_def Let_def
           split: option.splits)

lemma gen_typed_PInt: "gen_typed data \<Longrightarrow> \<exists>g. dict_get data ''_cpu_gen'' (PInt 0) = PInt g"
  by (auto simp: gen_typed_def dict_get_def split: option.splits pyval.splits)

lemma int_of_str_NA: "int_of_str ''N/A'' = None"
  by (simp add: int_of_str_def strip_with_def is_int_space_def int_max_str_digits_def int_literal_ok_def is_digit_def)

lemma parse_batt_unparsable:
  "data ''battery_pct'' = Some (PStr s) \<Longrightarrow> int_of_str s = None \<Longrightarrow> parse_batt data = Inr 0"
  by (simp add: parse_batt_def dict_get_def py_int_def)

text \<open>
  Claim C2. For every record with no rule-1 condition and \<^verbatim>\<open>gpu\<close> equal to \<^verbatim>\<open>"None"\<close>:
  when \<^verbatim>\<open>battery_pct\<close> is the string \<^verbatim>\<open>"N/A"\<close> it is parsed as 0 and the recommendation
  is the bad-battery label; when \<^verbatim>\<open>battery_pct\<close> parses to an integer from 60 to 65 and
  the CPU generation is below 8, rules 3 and 4 both fail and the recommendation is the
  default, standard resale.
\<close>

theorem battery_boundaries:
  assumes "\<not> rule1 data" and "dict_get data ''gpu'' (PStr ''None'') = PStr ''None''"
  shows "(data ''battery_pct'' = Some (PStr ''N/A'') \<and> gen_typed data \<longrightarrow>
            parse_batt data = Inr 0 \<and> compute_recommendation data = Inr BAD_BATTERY_DISCOUNT)
       \<and> (py_int (dict_get data ''battery_pct'' (PStr ''0'')) = Inr n \<and> 60 \<le> n \<and> n \<le> 65
          \<and> dict_get data ''_cpu_gen'' (PInt 0) = PInt g \<and> g < 8 \<longrightarrow>
            compute_recommendation data = Inr STANDARD_RESALE)"
proof (intro conjI impI)
  assume a: "data ''battery_pct'' = Some (PStr ''N/A'') \<and> gen_typed data"
  then show pb: "parse_batt data = Inr 0"
    by (simp add: parse_batt_unparsable int_of_str_NA)
  from a obtain g' where "dict_get data ''_cpu_gen'' (PInt 0) = PInt g'"
    using gen_typed_PInt by blast
  with pb assms show "compute_recommendation data = Inr BAD_BATTERY_DISCOUNT"
    by (simp add: compute_rec_cases)
next
  assume b: "py_int (dict_get data ''battery_pct'' (PStr ''0'')) = Inr n \<and> 60 \<le> n \<and> n \<le> 65
          \<and> dict_get data ''_cpu_gen'' (PInt 0) = PInt g \<and> g < 8"
  then have "parse_batt data = Inr n" by (simp add: parse_batt_def)
  with b assms show "compute_recommendation data = Inr STANDARD_RESALE"
    by (simp add: compute_rec_cases)
qed

lemma int_of_str_62: "int_of_str ''62'' = Some 62"
  by (simp add: int_of_str_def strip_with_def is_int_space_def int_max_str_digits_def int_literal_ok_def is_digit_def decimal_val_def digit_val_def)

theorem battery_boundaries_witness:
  "compute_recommendation [''smart_status'' \<mapsto> PStr ''PASSED'', ''gpu'' \<mapsto> PStr ''None'',
       ''battery_pct'' \<mapsto> PStr ''N/A'', ''_cpu_gen'' \<mapsto> PInt 11,
       ''screen_grade'' \<mapsto> PStr ''A'', ''chassis_grade'' \<mapsto> PStr ''B''] = Inr ''Bad Battery (Discount)''
   \<and> compute_recommendation [''smart_status'' \<mapsto> PStr ''PASSED'', ''gpu'' \<mapsto> PStr ''None'',
       ''battery_pct'' \<mapsto> PStr ''62'', ''_cpu_gen'' \<mapsto> PInt 6,
       ''screen_grade'' \<mapsto> PStr ''A'', ''chassis_grade'' \<mapsto> PStr ''B''] = Inr ''Standard Resale''"
proof -
  let ?d1 = "[''smart_status'' \<mapsto> PStr ''PASSED'', ''gpu'' \<mapsto> PStr ''None'',
       ''battery_pct'' \<mapsto> PStr ''N/A'', ''_cpu_gen'' \<mapsto> PInt 11,
       ''screen_grade'' \<mapsto> PStr ''A'', ''chassis_grade'' \<mapsto> PStr ''B'']"
  let ?d2 = "[''smart_status'' \<mapsto> PStr ''PASSED'', ''gpu'' \<mapsto> PStr ''None'',
       ''battery_pct'' \<mapsto> PStr ''62'', ''_cpu_gen'' \<mapsto> PInt 6,
       ''screen_grade'' \<mapsto> PStr ''A'', ''chassis_grade'' \<mapsto> PStr ''B'']"
  have r1: "\<not> rule1 ?d1" and r2: "\<not> rule1 ?d2" by (simp_all add: rule1_def)
  have g1: "dict_get ?d1 ''gpu'' (PStr ''None'') = PStr ''None''"
    and g2: "dict_get ?d2 ''gpu'' (PStr ''None'') = PStr ''None''" by (simp_all add: dict_get_def)
  have t1: "?d1 ''battery_pct'' = Some (PStr ''N/A'') \<and> gen_typed ?d1" by (simp add: gen_typed_def)
  have t2: "py_int (dict_get ?d2 ''battery_pct'' (PStr ''0'')) = Inr 62 \<and> (60::int) \<le> 62 \<and> (62::int) \<le> 65
          \<and> dict_get ?d2 ''_cpu_gen'' (PInt 0) = PInt 6 \<and> (6::int) < 8"
    by (simp add: dict_get_def py_int_def int_of_str_62)
  from battery_boundaries [OF r1 g1, of 0 0] t1
  have "compute_recommendation ?d1 = Inr BAD_BATTERY_DISCOUNT" by blast
  moreover from battery_boundaries [OF r2 g2, of 62 6] t2
  have "compute_recommendation ?d2 = Inr STANDARD_RESALE" by blast
  ultimately show ?thesis by (simp add: BAD_BATTERY_DISCOUNT_def STANDARD_RESALE_def)
qed

lemma int_of_str_0: "int_of_str ''0'' = Some 0"
  by (simp add: int_of_str_def strip_with_def is_int_space_def int_max_str_digits_def int_literal_ok_def is_digit_def decimal_val_def digit_val_def)

lemma int_of_str_empty: "int_of_str [] = None"
  by (simp add: int_of_str_def strip_with_def int_literal_ok_def)

lemma int_of_str_separator:
  "int_of_str (CHR 0x1C # ''62'' @ [CHR 0xA0]) = None"
  by (simp add: int_of_str_def strip_with_def is_int_space_def int_literal_ok_def is_digit_def)

lemma int_of_str_nbsp: "int_of_str (CHR 0xA0 # ''62'' @ [CHR 0x85]) = Some 62"
  by (simp add: int_of_str_def strip_with_def is_int_space_def int_max_str_digits_def
        int_literal_ok_def is_digit_def decimal_val_def digit_val_def)

lemma int_of_str_85pct: "int_of_str ''85%'' = None"
  by (simp add: int_of_str_def strip_with_def is_int_space_def int_max_str_digits_def int_literal_ok_def is_digit_def)

lemma labels_distinct:
  "distinct [PARTS_REPAIR, HIGH_VALUE, STANDARD_RESALE, BAD_BATTERY_DISCOUNT]"
  by (simp add: PARTS_REPAIR_def HIGH_VALUE_def STANDARD_RESALE_def BAD_BATTERY_DISCOUNT_def)

lemma parse_batt_fill: "parse_batt (fill_defaults data) = parse_batt data"
  by (simp add: parse_batt_def fill_defaults_def dict_get_def split: option.splits)

lemma compute_fill_defaults: "compute_recommendation (fill_defaults data) = compute_recommendation data"
  unfolding compute_recommendation_def parse_batt_fill
  by (simp add: fill_defaults_def dict_get_def split: option.splits)

lemma compute_typed_label:
  assumes "batt_typed data" and "gen_typed data"
  shows "compute_recommendation data
           \<in> Inr ` {PARTS_REPAIR, HIGH_VALUE, STANDARD_RESALE, BAD_BATTERY_DISCOUNT}"
proof -
  obtain n where n: "parse_batt data = Inr n" using parse_batt_typed [OF assms(1)] by blast
  obtain g where g: "dict_get data ''_cpu_gen'' (PInt 0) = PInt g"
    using gen_typed_PInt [OF assms(2)] by blast
  show ?thesis
    by (simp add: compute_recommendation_def n g py_ge_int_def Let_def)
qed

lemma compute_batt_cong:
  "parse_batt d = parse_batt d' \<Longrightarrow> (\<forall>k. k \<noteq> ''battery_pct'' \<longrightarrow> d k = d' k) \<Longrightarrow>
   compute_recommendation d = compute_recommendation d'"
  by (simp add: compute_recommendation_def dict_get_def)

text \<open>
  Claim C9, as amended. \<^verbatim>\<open>compute_recommendation\<close> returns on every dictionary whose
  \<^verbatim>\<open>battery_pct\<close>, when present, is a string or an integer and whose \<^verbatim>\<open>_cpu_gen\<close>, when
  present, is an integer, and what it returns is one of four distinct labels. A
  \<^verbatim>\<open>battery_pct\<close> string that \<^verbatim>\<open>int()\<close> rejects (it holds no number, or a character that is
  neither part of the number nor whitespace to \<^verbatim>\<open>int()\<close>, or too many digits) is treated
  as 0, and a missing key behaves
  as its default: \<^verbatim>\<open>smart_status\<close> \<^verbatim>\<open>"N/A"\<close>, \<^verbatim>\<open>gpu\<close> \<^verbatim>\<open>"None"\<close>, generation 0, empty
  grades, battery \<^verbatim>\<open>"0"\<close>.
\<close>

theorem recommendation_total_on_typed:
  assumes "batt_typed data" and "gen_typed data"
  shows "compute_recommendation data
           \<in> Inr ` {PARTS_REPAIR, HIGH_VALUE, STANDARD_RESALE, BAD_BATTERY_DISCOUNT}
       \<and> distinct [PARTS_REPAIR, HIGH_VALUE, STANDARD_RESALE, BAD_BATTERY_DISCOUNT]
       \<and> (data ''battery_pct'' = Some (PStr s) \<and> int_of_str s = None \<longrightarrow>
            parse_batt data = Inr 0
            \<and> compute_recommendation data = compute_recommendation (data(''battery_pct'' \<mapsto> PInt 0)))
       \<and> compute_recommendation (fill_defaults data) = compute_recommendation data"
proof (intro conjI impI)
  show "compute_recommendation data
           \<in> Inr ` {PARTS_REPAIR, HIGH_VALUE, STANDARD_RESALE, BAD_BATTERY_DISCOUNT}"
    using assms by (rule compute_typed_label)
  show "distinct [PARTS_REPAIR, HIGH_VALUE, STANDARD_RESALE, BAD_BATTERY_DISCOUNT]"
    by (rule labels_distinct)
  show "compute_recommendation (fill_defaults data) = compute_recommendation data"
    by (rule compute_fill_defaults)
next
  assume a: "data ''battery_pct'' = Some (PStr s) \<and> int_of_str s = None"
  then show pb: "parse_batt data = Inr 0" by (simp add: parse_batt_unparsable)
  have "parse_batt (data(''battery_pct'' \<mapsto> PInt 0)) = Inr 0"
    by (simp add: parse_batt_def dict_get_def py_int_def)
  with pb show "compute_recommendation data = compute_recommendation (data(''battery_pct'' \<mapsto> PInt 0))"
    by (intro compute_batt_cong) simp_all
qed

theorem recommendation_total_on_typed_witness:
  "batt_typed [''battery_pct'' \<mapsto> PStr ''85%'', ''_cpu_gen'' \<mapsto> PInt 11]
   \<and> gen_typed [''battery_pct'' \<mapsto> PStr ''85%'', ''_cpu_gen'' \<mapsto> PInt 11]
   \<and> int_of_str ''85%'' = None \<and> int_of_str [] = None
   \<and> parse_batt [''battery_pct'' \<mapsto> PStr ''85%'', ''_cpu_gen'' \<mapsto> PInt 11] = Inr 0
   \<and> compute_recommendation [''battery_pct'' \<mapsto> PStr ''85%'', ''_cpu_gen'' \<mapsto> PInt 11]
       = Inr ''Bad Battery (Discount)''
   \<and> compute_recommendation
        [''battery_pct'' \<mapsto> PStr (CHR 0x1C # ''62'' @ [CHR 0xA0]), ''_cpu_gen'' \<mapsto> PInt 6]
       = Inr ''Bad Battery (Discount)''
   \<and> parse_batt [''battery_pct'' \<mapsto> PStr (replicate 4301 CHR ''1'')] = Inr 0"
proof -
  let ?d = "[''battery_pct'' \<mapsto> PStr ''85%'', ''_cpu_gen'' \<mapsto> PInt 11]"
  have b: "batt_typed ?d" by (simp add: batt_typed_def)
  have g: "gen_typed ?d" by (simp add: gen_typed_def)
  have u: "?d ''battery_pct'' = Some (PStr ''85%'') \<and> int_of_str ''85%'' = None"
    by (simp add: int_of_str_85pct)
  from recommendation_total_on_typed [OF b g, of "''85%''"] u
  have p: "parse_batt ?d = Inr 0"
    and c: "compute_recommendation ?d = compute_recommendation (?d(''battery_pct'' \<mapsto> PInt 0))"
    by blast+
  have "compute_recommendation (?d(''battery_pct'' \<mapsto> PInt 0)) = Inr BAD_BATTERY_DISCOUNT"
    by (simp add: compute_recommendation_def parse_batt_def dict_get_def py_int_def py_ge_int_def)
  with c have c': "compute_recommendation ?d = Inr ''Bad Battery (Discount)''"
    by (simp add: BAD_BATTERY_DISCOUNT_def)
  let ?s = "CHR 0x1C # ''62'' @ [CHR 0xA0]"
  let ?e = "[''battery_pct'' \<mapsto> PStr ?s, ''_cpu_gen'' \<mapsto> PInt 6]"
  have be: "batt_typed ?e" by (simp add: batt_typed_def)
  have ge: "gen_typed ?e" by (simp add: gen_typed_def)
  have ue: "?e ''battery_pct'' = Some (PStr ?s) \<and> int_of_str ?s = None"
    using int_of_str_separator by simp
  from recommendation_total_on_typed [OF be ge, of ?s] ue
  have ce: "compute_recommendation ?e = compute_recommendation (?e(''battery_pct'' \<mapsto> PInt 0))"
    by blast
  have "compute_recommendation (?e(''battery_pct'' \<mapsto> PInt 0)) = Inr BAD_BATTERY_DISCOUNT"
    by (simp add: compute_recommendation_def parse_batt_def dict_get_def py_int_def py_ge_int_def)
  with ce have ce': "compute_recommendation ?e = Inr ''Bad Battery (Discount)''"
    by (simp add: BAD_BATTERY_DISCOUNT_def)
  let ?f = "[''battery_pct'' \<mapsto> PStr (replicate 4301 CHR ''1'')]"
  have bf: "batt_typed ?f" by (simp add: batt_typed_def)
  have gf: "gen_typed ?f" by (simp add: gen_typed_def)
  have uf: "?f ''battery_pct'' = Some (PStr (replicate 4301 CHR ''1''))
            \<and> int_of_str (replicate 4301 CHR ''1'') = None"
    using int_of_str_4301 by simp
  from recommendation_total_on_typed [OF bf gf, of "replicate 4301 CHR ''1''"] uf
  have pf: "parse_batt ?f = Inr 0" by blast
  have e: "int_of_str [] = None" by (rule int_of_str_empty)
  from b g u p c' ce' pf e show ?thesis by blast
qed

text \<open>
  Claim C9 as stated, for arbitrary dictionaries, fails: only \<^verbatim>\<open>ValueError\<close> is caught
  around \<^verbatim>\<open>int()\<close>, so a \<^verbatim>\<open>battery_pct\<close> that is \<^verbatim>\<open>None\<close> raises \<^verbatim>\<open>TypeError\<close>, and so
  does the comparison of a \<^verbatim>\<open>_cpu_gen\<close> that is a string with 8.
\<close>

theorem recommendation_total_counterexample:
  "compute_recommendation [''battery_pct'' \<mapsto> PNone] = Inl TypeError
   \<and> compute_recommendation [''_cpu_gen'' \<mapsto> PStr ''8''] = Inl TypeError"
  by (simp add: compute_recommendation_def parse_batt_def dict_get_def py_int_def py_ge_int_def
        int_of_str_0)

section \<open>Properties of the command and storage probes\<close>

text \<open>
  Claim C7. With the empty string as device, \<^verbatim>\<open>get_storage_info\<close> returns the
  sentinels, type \<^verbatim>\<open>"N/A"\<close>, capacity 0 and SMART status \<^verbatim>\<open>"N/A"\<close>, and runs no command.
\<close>

theorem undetermined_device_sentinels:
  "get_storage_info sh [] = (Inr (''N/A'', 0, ''N/A''), [])"
  by (simp add: get_storage_info_def)

lemma contains_iff: "contains sub s \<longleftrightarrow> (\<exists>p t. s = p @ sub @ t)"
proof (induction s)
  case Nil
  then show ?case by auto
next
  case (Cons c cs)
  show ?case
  proof
    assume "contains sub (c # cs)"
    then consider "prefix sub (c # cs)" | "contains sub cs" by auto
    then show "\<exists>p t. c # cs = p @ sub @ t"
    proof cases
      case 1
      then obtain t where "c # cs = sub @ t" by (auto simp: prefix_def)
      then have "c # cs = [] @ sub @ t" by simp
      then show ?thesis by blast
    next
      case 2
      with Cons.IH obtain p t where "cs = p @ sub @ t" by blast
      then have "c # cs = (c # p) @ sub @ t" by simp
      then show ?thesis by blast
    qed
  next
    assume "\<exists>p t. c # cs = p @ sub @ t"
    then obtain p t where pt: "c # cs = p @ sub @ t" by blast
    show "contains sub (c # cs)"
    proof (cases p)
      case Nil
      with pt have "prefix sub (c # cs)" by (simp add: prefix_def)
      then show ?thesis by simp
    next
      case (Cons a p')
      with pt have "cs = p' @ sub @ t" by simp
      with Cons.IH have "contains sub cs" by blast
      then show ?thesis by simp
    qed
  qed
qed

text \<open>
  Claim C6, as amended. When \<^verbatim>\<open>subprocess.run\<close> returns a completed process,
  \<^verbatim>\<open>run(cmd, timeout)\<close> returns the captured standard output with the whitespace at its
  two ends removed, whatever the exit status: a command that ends with a non-zero status
  still yields what it wrote. When \<^verbatim>\<open>subprocess.run\<close> raises an exception of the class
  \<^verbatim>\<open>Exception\<close> (the timeout expired, the command could not be executed, the output
  could not be decoded), \<^verbatim>\<open>run\<close> returns the empty string. No exception of the class
  \<^verbatim>\<open>Exception\<close> leaves \<^verbatim>\<open>run\<close>: what it passes to its caller is only an exception
  outside that class (\<^verbatim>\<open>KeyboardInterrupt\<close>, \<^verbatim>\<open>SystemExit\<close>) that \<^verbatim>\<open>subprocess.run\<close>
  raised, and \<^verbatim>\<open>run\<close> returns a string whenever \<^verbatim>\<open>subprocess.run\<close> raises none of them.
\<close>

theorem run_contract:
  "(sh cmd t = Completed rc out \<longrightarrow> run sh cmd t = Inr (py_strip out))
   \<and> (sh cmd t = Raised e \<and> is_Exception e \<longrightarrow> run sh cmd t = Inr [])
   \<and> (run sh cmd t = Inl x \<longrightarrow> \<not> is_Exception x \<and> sh cmd t = Raised x)
   \<and> (sh cmd t \<noteq> Raised KeyboardInterrupt \<and> sh cmd t \<noteq> Raised SystemExit \<longrightarrow>
        (\<exists>s. run sh cmd t = Inr s))
   \<and> (\<exists>pre suf. out = pre @ py_strip out @ suf
                  \<and> (\<forall>c \<in> set pre. is_space c) \<and> (\<forall>c \<in> set suf. is_space c))
   \<and> (py_strip out \<noteq> [] \<longrightarrow> \<not> is_space (hd (py_strip out)) \<and> \<not> is_space (last (py_strip out)))"
proof (intro conjI impI)
  show "\<exists>pre suf. out = pre @ py_strip out @ suf
                  \<and> (\<forall>c \<in> set pre. is_space c) \<and> (\<forall>c \<in> set suf. is_space c)"
    unfolding py_strip_def by (rule strip_with_decomp)
next
  assume "py_strip out \<noteq> []"
  then have "\<not> is_space (hd (py_strip out)) \<and> \<not> is_space (last (py_strip out))"
    unfolding py_strip_def by (rule strip_with_ends)
  then show "\<not> is_space (hd (py_strip out))" and "\<not> is_space (last (py_strip out))"
    by simp_all
next
  assume "sh cmd t = Completed rc out"
  then show "run sh cmd t = Inr (py_strip out)" by (simp add: run_def)
next
  assume "sh cmd t = Raised e \<and> is_Exception e"
  then show "run sh cmd t = Inr []" by (simp add: run_def)
next
  assume a: "run sh cmd t = Inl x"
  then show "\<not> is_Exception x"
    by (auto simp: run_def split: proc_outcome.splits if_splits)
  from a show "sh cmd t = Raised x"
    by (auto simp: run_def split: proc_outcome.splits if_splits)
next
  assume "sh cmd t \<noteq> Raised KeyboardInterrupt \<and> sh cmd t \<noteq> Raised SystemExit"
  then show "\<exists>s. run sh cmd t = Inr s"
    by (auto simp: run_def is_Exception_def split: proc_outcome.splits)
qed

lemma py_strip_ok: "py_strip ('' ok '' @ [char_of (10::nat)]) = ''ok''"
  by (simp add: py_strip_def strip_with_def is_space_def)

theorem run_contract_witness:
  "run (\<lambda>c t. if c = ''true'' then Completed 1 ('' ok '' @ [char_of (10::nat)])
               else if c = ''sleep 60'' then Raised TimeoutExpired
               else Raised KeyboardInterrupt) ''true'' 15 = Inr ''ok''
   \<and> run (\<lambda>c t. if c = ''true'' then Completed 1 ('' ok '' @ [char_of (10::nat)])
               else if c = ''sleep 60'' then Raised TimeoutExpired
               else Raised KeyboardInterrupt) ''sleep 60'' 15 = Inr []
   \<and> is_Exception TimeoutExpired \<and> \<not> is_Exception KeyboardInterrupt
   \<and> \<not> is_space (hd ''ok'') \<and> \<not> is_space (last ''ok'')"
proof -
  let ?sh = "\<lambda>c t::nat. if c = ''true'' then Completed 1 ('' ok '' @ [char_of (10::nat)])
               else if c = ''sleep 60'' then Raised TimeoutExpired
               else Raised KeyboardInterrupt"
  let ?out = "'' ok '' @ [char_of (10::nat)]"
  have a: "?sh ''true'' 15 = Completed 1 ?out" by simp
  have b: "?sh ''sleep 60'' 15 = Raised TimeoutExpired \<and> is_Exception TimeoutExpired"
    by (simp add: is_Exception_def)
  have c: "py_strip ?out \<noteq> []" by (simp only: py_strip_ok) simp
  have d: "run ?sh ''cat'' 15 = Inl KeyboardInterrupt" by (simp add: run_def is_Exception_def)
  from run_contract [of ?sh "''true''" 15 1 ?out TimeoutExpired KeyboardInterrupt] a c
  have 1: "run ?sh ''true'' 15 = Inr (py_strip ?out)"
    and 2: "\<not> is_space (hd (py_strip ?out)) \<and> \<not> is_space (last (py_strip ?out))" by blast+
  from run_contract [of ?sh "''sleep 60''" 15 1 ?out TimeoutExpired KeyboardInterrupt] b
  have 3: "run ?sh ''sleep 60'' 15 = Inr []" by blast
  from run_contract [of ?sh "''cat''" 15 1 ?out TimeoutExpired KeyboardInterrupt] d
  have 4: "\<not> is_Exception KeyboardInterrupt" by blast
  from 1 2 3 4 b show ?thesis by (simp only: py_strip_ok) simp
qed

text \<open>
  Claim C6 as stated fails on two points. \<^verbatim>\<open>run\<close> never reads the exit status, so a
  command that ends with a non-zero status after writing to its standard output gives
  that output, not the empty string. And \<^verbatim>\<open>except Exception\<close> does not catch
  \<^verbatim>\<open>KeyboardInterrupt\<close>, which leaves \<^verbatim>\<open>run\<close> when it is raised while the command runs.
\<close>

theorem run_failure_counterexample:
  "run (\<lambda>c t. if c = ''echo partial; exit 3'' then Completed 3 (''partial'' @ [CHR 0x0A])
               else Raised KeyboardInterrupt) ''echo partial; exit 3'' 15 = Inr ''partial''
   \<and> run (\<lambda>c t. if c = ''echo partial; exit 3'' then Completed 3 (''partial'' @ [CHR 0x0A])
               else Raised KeyboardInterrupt) ''sleep 60'' 15 = Inl KeyboardInterrupt"
  by (simp add: run_def py_strip_def strip_with_def is_space_def is_Exception_def)

text \<open>
  Claim C4. The storage health is \<^verbatim>\<open>"PASSED"\<close> when the output of the self-test query
  contains \<^verbatim>\<open>PASSED\<close>, otherwise \<^verbatim>\<open>"FAILED"\<close> when it contains \<^verbatim>\<open>FAILED\<close>, otherwise
  \<^verbatim>\<open>"N/A"\<close>; with both substrings in the output, \<^verbatim>\<open>PASSED\<close> wins. This is the third
  component of what \<^verbatim>\<open>get_storage_info\<close> returns for a device that is not empty.
\<close>

theorem smart_classification:
  "smart_status_of out =
     (if \<exists>p s. out = p @ ''PASSED'' @ s then ''PASSED''
      else if \<exists>p s. out = p @ ''FAILED'' @ s then ''FAILED''
      else ''N/A'')
   \<and> (disk \<noteq> []
        \<and> run sh (''lsblk -bdn -o SIZE '' @ disk) default_timeout = Inr size_bytes
        \<and> capacity_of size_bytes = Inr c
        \<and> run sh (''smartctl -H '' @ disk) default_timeout = Inr smart_out \<longrightarrow>
        (\<exists>ty. fst (get_storage_info sh disk) = Inr (ty, c, smart_status_of smart_out)))"
  unfolding smart_status_of_def contains_iff
  by (auto simp: get_storage_info_def Let_def smart_status_of_def contains_iff)

lemma capacity_of_empty: "capacity_of [] = Inr 0"
  by (simp add: capacity_of_def int_of_str_empty)

theorem smart_classification_witness:
  "smart_status_of ''FAILED, earlier PASSED'' = ''PASSED''
   \<and> fst (get_storage_info
        (\<lambda>c t. if c = ''smartctl -H /dev/sda'' then Completed 0 ''result: FAILED!''
                else Raised OSError) ''/dev/sda'') = Inr (''SATA'', 0, ''FAILED'')"
proof -
  let ?sh = "\<lambda>c t::nat. if c = ''smartctl -H /dev/sda'' then Completed 0 ''result: FAILED!''
                else Raised OSError"
  have r1: "run ?sh ''lsblk -bdn -o SIZE /dev/sda'' default_timeout = Inr []"
    by (simp add: run_def is_Exception_def)
  have r2: "run ?sh ''smartctl -H /dev/sda'' default_timeout = Inr ''result: FAILED!''"
    by (simp add: run_def py_strip_def strip_with_def is_space_def)
  have h: "''/dev/sda'' \<noteq> []
        \<and> run ?sh (''lsblk -bdn -o SIZE '' @ ''/dev/sda'') default_timeout = Inr []
        \<and> capacity_of [] = Inr 0
        \<and> run ?sh (''smartctl -H '' @ ''/dev/sda'') default_timeout = Inr ''result: FAILED!''"
    using r1 r2 by (simp add: capacity_of_empty)
  have e1: "\<exists>p s. ''FAILED, earlier PASSED'' = p @ ''PASSED'' @ s"
  proof -
    have "''FAILED, earlier PASSED'' = ''FAILED, earlier '' @ ''PASSED'' @ []" by simp
    then show ?thesis by blast
  qed
  from smart_classification [of "''FAILED, earlier PASSED''" "''/dev/sda''" ?sh "[]" 0 "''result: FAILED!''"] e1
  have 1: "smart_status_of ''FAILED, earlier PASSED'' = ''PASSED''" by simp
  from smart_classification [of "''result: FAILED!''" "''/dev/sda''" ?sh "[]" 0 "''result: FAILED!''"] h
  obtain ty where 2: "fst (get_storage_info ?sh ''/dev/sda'')
      = Inr (ty, 0, smart_status_of ''result: FAILED!'')"
    by blast
  have 3: "smart_status_of ''result: FAILED!'' = ''FAILED''" by (simp add: smart_status_of_def)
  have 4: "fst (get_storage_info ?sh ''/dev/sda'') = Inr (''SATA'', 0, ''FAILED'')"
    using 2 3 r1 r2 by (simp add: get_storage_info_def capacity_of_empty Let_def)
  from 1 4 show ?thesis by simp
qed

section \<open>Properties of the CPU generation parser\<close>

lemma re_search_skip:
  "(\<forall>k < length pre. m (drop k (pre @ s)) = None) \<Longrightarrow> re_search m (pre @ s) = re_search m s"
proof (induction pre)
  case Nil
  then show ?case by simp
next
  case (Cons a pre)
  have "0 < length (a # pre)" by simp
  with Cons.prems have "m (drop 0 ((a # pre) @ s)) = None" by blast
  then have 0: "m ((a # pre) @ s) = None" by simp
  have "\<forall>k < length pre. m (drop k (pre @ s)) = None"
  proof (intro allI impI)
    fix k assume "k < length pre"
    then have "Suc k < length (a # pre)" by simp
    with Cons.prems have "m (drop (Suc k) ((a # pre) @ s)) = None" by blast
    then show "m (drop k (pre @ s)) = None" by simp
  qed
  with Cons.IH have "re_search m (pre @ s) = re_search m s" by blast
  with 0 show ?case by simp
qed

lemma re_search_hit: "m s = Some g \<Longrightarrow> re_search m s = Some g"
  by (cases s) auto

lemma re_search_Some_at: "re_search m s = Some g \<Longrightarrow> \<exists>k. m (drop k s) = Some g"
proof (induction s)
  case Nil
  then have "m (drop 0 []) = Some g" by simp
  then show ?case by blast
next
  case (Cons c cs)
  show ?case
  proof (cases "m (c # cs)")
    case None
    with Cons.prems have "re_search m cs = Some g" by simp
    with Cons.IH obtain k where "m (drop k cs) = Some g" by blast
    then have "m (drop (Suc k) (c # cs)) = Some g" by simp
    then show ?thesis by blast
  next
    case (Some a)
    with Cons.prems have "m (drop 0 (c # cs)) = Some g" by simp
    then show ?thesis by blast
  qed
qed

lemma takeWhile_run:
  assumes "\<forall>c \<in> set ds. P c" and "rest = [] \<or> \<not> P (hd rest)"
  shows "takeWhile P (ds @ rest) = ds" and "dropWhile P (ds @ rest) = rest"
proof -
  from assms(2) have t: "takeWhile P rest = []" and d: "dropWhile P rest = rest"
    by (cases rest; auto)+
  from assms(1) show "takeWhile P (ds @ rest) = ds" by (simp add: takeWhile_append2 t)
  from assms(1) show "dropWhile P (ds @ rest) = rest" by (simp add: dropWhile_append2 d)
qed

lemma intel_at_run:
  assumes "t \<in> set ''3579''" and "\<forall>c \<in> set ds. is_digit c"
    and "2 \<le> length ds" and "length ds \<le> 5"
    and "length ds = 5 \<or> rest = [] \<or> \<not> is_digit (hd rest)"
  shows "intel_at (CHR ''i'' # t # CHR ''-'' # ds @ rest) = Some ds"
proof -
  have "takeWhile is_digit (take 5 (ds @ rest)) = ds"
  proof (cases "length ds = 5")
    case True
    then have "take 5 (ds @ rest) = ds" by simp
    with assms(2) show ?thesis by (simp add: takeWhile_eq_all_conv[THEN iffD2])
  next
    case False
    with assms have r: "rest = [] \<or> \<not> is_digit (hd rest)" and l: "length ds < 5" by auto
    have "take 5 (ds @ rest) = ds @ take (5 - length ds) rest" using l by simp
    moreover have "take (5 - length ds) rest = [] \<or> \<not> is_digit (hd (take (5 - length ds) rest))"
      using r l by (cases rest) auto
    ultimately show ?thesis using takeWhile_run(1) [OF assms(2)] by simp
  qed
  with assms(1,3) show ?thesis by (simp add: intel_at_def)
qed

lemma digit_not_space: "is_digit c \<Longrightarrow> \<not> is_space c"
  by (auto simp: is_digit_def is_space_def)

lemma ryzen_at_run:
  assumes "w1 \<noteq> []" and "\<forall>c \<in> set w1. is_space c" and "is_digit tier"
    and "w2 \<noteq> []" and "\<forall>c \<in> set w2. is_space c" and "is_digit g"
  shows "ryzen_at (''Ryzen'' @ w1 @ tier # w2 @ g # rest) = Some g"
proof -
  let ?r' = "w2 @ g # rest"
  let ?r = "w1 @ tier # ?r'"
  have nt: "tier # ?r' = [] \<or> \<not> is_space (hd (tier # ?r'))"
    and ng: "g # rest = [] \<or> \<not> is_space (hd (g # rest))"
    using assms(3,6) by (simp_all add: digit_not_space)
  have 1: "takeWhile is_space ?r = w1" and 2: "dropWhile is_space ?r = tier # ?r'"
    using takeWhile_run [OF assms(2) nt] by simp_all
  have 3: "takeWhile is_space ?r' = w2" and 4: "dropWhile is_space ?r' = g # rest"
    using takeWhile_run [OF assms(5) ng] by simp_all
  have p: "prefix ''Ryzen'' (''Ryzen'' @ ?r)" by (rule prefixI) simp
  have d: "drop 5 (''Ryzen'' @ ?r) = ?r" by simp
  show ?thesis
    unfolding ryzen_at_def Let_def d
    using p assms(1,3,4,6) by (simp only: 1 2 3 4 if_True if_False list.case simp_thms) 
qed

lemma ryzen_at_digit: "ryzen_at s = Some g \<Longrightarrow> is_digit g"
  by (auto simp: ryzen_at_def Let_def split: if_splits list.splits)

lemma decimal_val_1: "is_digit c \<Longrightarrow> decimal_val [c] = digit_val c"
  by (simp add: decimal_val_def)

lemma decimal_val_2:
  "is_digit a \<Longrightarrow> is_digit b \<Longrightarrow> decimal_val [a, b] = 10 * digit_val a + digit_val b"
  by (simp add: decimal_val_def)

lemma ryzen_generation_eq:
  "ryzen_generation s = (case re_search ryzen_at s of Some g \<Rightarrow> int (digit_val g) | None \<Rightarrow> 0)"
proof (cases "re_search ryzen_at s")
  case None
  then show ?thesis by (simp add: ryzen_generation_def)
next
  case (Some g)
  from re_search_Some_at [OF Some] obtain k where "ryzen_at (drop k s) = Some g" ..
  then have "is_digit g" by (rule ryzen_at_digit)
  then have "decimal_val [g] = digit_val g" by (rule decimal_val_1)
  with Some show ?thesis by (simp add: ryzen_generation_def)
qed

lemma intel_search_run:
  assumes "t \<in> set ''3579''" and "\<forall>c \<in> set ds. is_digit c"
    and "2 \<le> length ds" and "length ds \<le> 5"
    and "length ds = 5 \<or> rest = [] \<or> \<not> is_digit (hd rest)"
    and "\<forall>k < length pre. intel_at (drop k (pre @ CHR ''i'' # t # CHR ''-'' # ds @ rest)) = None"
  shows "re_search intel_at (pre @ CHR ''i'' # t # CHR ''-'' # ds @ rest) = Some ds"
proof -
  let ?s = "CHR ''i'' # t # CHR ''-'' # ds @ rest"
  have "intel_at ?s = Some ds" using assms(1-5) by (rule intel_at_run)
  then have "re_search intel_at ?s = Some ds" by (rule re_search_hit)
  moreover have "re_search intel_at (pre @ ?s) = re_search intel_at ?s"
    using assms(6) by (rule re_search_skip)
  ultimately show ?thesis by simp
qed


lemma parse_nonneg: "0 \<le> parse_cpu_generation s"
  by (simp add: parse_cpu_generation_def ryzen_generation_def split: option.splits)

lemma intel_short_run:
  assumes t: "t \<in> set ''3579''" and d: "\<forall>c \<in> set ds. is_digit c"
    and len: "length ds = 2 \<or> length ds = 3"
    and r: "rest = [] \<or> \<not> is_digit (hd rest)"
    and n: "\<forall>k < length pre. intel_at (drop k (pre @ CHR ''i'' # t # CHR ''-'' # ds @ rest)) = None"
  shows "re_search intel_at (pre @ CHR ''i'' # t # CHR ''-'' # ds @ rest) = Some ds"
    and "parse_cpu_generation (pre @ CHR ''i'' # t # CHR ''-'' # ds @ rest)
           = ryzen_generation (pre @ CHR ''i'' # t # CHR ''-'' # ds @ rest)"
proof -
  let ?s = "pre @ CHR ''i'' # t # CHR ''-'' # ds @ rest"
  from len have l2: "2 \<le> length ds" and l5: "length ds \<le> 5"
    and n4: "length ds \<noteq> 4" and n5: "length ds \<noteq> 5" by auto
  from r have r': "length ds = 5 \<or> rest = [] \<or> \<not> is_digit (hd rest)" by blast
  show f: "re_search intel_at ?s = Some ds"
    using t d l2 l5 r' n by (rule intel_search_run)
  show "parse_cpu_generation ?s = ryzen_generation ?s"
    by (simp only: parse_cpu_generation_def f option.case n4 n5 if_False)
qed

text \<open>
  Claim C10. When the first match of the Intel pattern \<^verbatim>\<open>i[3579]-\<close> is followed by a
  run of two or three digits (as in \<^verbatim>\<open>i7-920\<close>), the Intel branch returns nothing and
  \<^verbatim>\<open>parse_cpu_generation\<close> falls through to the Ryzen pattern, whose result is the digit
  it captures, or 0 without a match. Every result is a non-negative integer.
\<close>

theorem short_intel_run_falls_through:
  "(t \<in> set ''3579'' \<and> (\<forall>c \<in> set ds. is_digit c) \<and> (length ds = 2 \<or> length ds = 3)
      \<and> (rest = [] \<or> \<not> is_digit (hd rest))
      \<and> (\<forall>k < length pre. intel_at (drop k (pre @ CHR ''i'' # t # CHR ''-'' # ds @ rest)) = None) \<longrightarrow>
        re_search intel_at (pre @ CHR ''i'' # t # CHR ''-'' # ds @ rest) = Some ds
        \<and> parse_cpu_generation (pre @ CHR ''i'' # t # CHR ''-'' # ds @ rest)
            = ryzen_generation (pre @ CHR ''i'' # t # CHR ''-'' # ds @ rest))
   \<and> ryzen_generation s = (case re_search ryzen_at s of Some g \<Rightarrow> int (digit_val g) | None \<Rightarrow> 0)
   \<and> 0 \<le> parse_cpu_generation s"
proof (intro conjI impI)
  let ?s = "pre @ CHR ''i'' # t # CHR ''-'' # ds @ rest"
  assume a: "t \<in> set ''3579'' \<and> (\<forall>c \<in> set ds. is_digit c) \<and> (length ds = 2 \<or> length ds = 3)
      \<and> (rest = [] \<or> \<not> is_digit (hd rest))
      \<and> (\<forall>k < length pre. intel_at (drop k ?s) = None)"
  from a have t: "t \<in> set ''3579''" by (rule conjunct1)
  from a have d: "\<forall>c \<in> set ds. is_digit c" by (rule conjunct1 [OF conjunct2])
  from a have len: "length ds = 2 \<or> length ds = 3"
    by (rule conjunct1 [OF conjunct2 [OF conjunct2]])
  from a have r: "rest = [] \<or> \<not> is_digit (hd rest)"
    by (rule conjunct1 [OF conjunct2 [OF conjunct2 [OF conjunct2]]])
  from a have n: "\<forall>k < length pre. intel_at (drop k ?s) = None"
    by (rule conjunct2 [OF conjunct2 [OF conjunct2 [OF conjunct2]]])
  show "re_search intel_at ?s = Some ds" using t d len r n by (rule intel_short_run(1))
  show "parse_cpu_generation ?s = ryzen_generation ?s" using t d len r n by (rule intel_short_run(2))
next
  show "ryzen_generation s = (case re_search ryzen_at s of Some g \<Rightarrow> int (digit_val g) | None \<Rightarrow> 0)"
    by (rule ryzen_generation_eq)
  show "0 \<le> parse_cpu_generation s" by (rule parse_nonneg)
qed

theorem short_intel_run_falls_through_witness:
  "re_search intel_at ''Core i7-920'' = Some ''920''
   \<and> parse_cpu_generation ''Core i7-920'' = ryzen_generation ''Core i7-920''
   \<and> ryzen_generation ''Core i7-920'' = 0
   \<and> parse_cpu_generation ''Core i7-920'' = 0"
proof -
  have h: "CHR ''7'' \<in> set ''3579'' \<and> (\<forall>c \<in> set ''920''. is_digit c)
      \<and> (length ''920'' = 2 \<or> length ''920'' = 3)
      \<and> (([]::string) = [] \<or> \<not> is_digit (hd []))
      \<and> (\<forall>k < length ''Core ''. intel_at (drop k (''Core '' @ CHR ''i'' # CHR ''7'' # CHR ''-'' # ''920'' @ [])) = None)"
    by (simp add: is_digit_def intel_at_def eval_nat_numeral All_less_Suc)
  from short_intel_run_falls_through
         [of "CHR ''7''" "''920''" "[]" "''Core ''" "''Core i7-920''"] h
  have 1: "re_search intel_at ''Core i7-920'' = Some ''920''"
    and 2: "parse_cpu_generation ''Core i7-920'' = ryzen_generation ''Core i7-920''"
    and 3: "ryzen_generation ''Core i7-920''
             = (case re_search ryzen_at ''Core i7-920'' of Some g \<Rightarrow> int (digit_val g) | None \<Rightarrow> 0)"
    by simp_all
  have 4: "re_search ryzen_at ''Core i7-920'' = None" by (simp add: ryzen_at_def)
  from 1 2 3 4 show ?thesis by simp
qed

text \<open>
  Claim C3, at its concrete strings. The pattern captures \<^verbatim>\<open>1185\<close> from \<^verbatim>\<open>i7-1185G7\<close>, a run
  of four digits, so the function returns its first digit, 1, where the docstring of
  \<^verbatim>\<open>parse_cpu_generation\<close> promises 11. The other five strings give 8, 13, 14, 5 and 0.
\<close>

theorem cpu_generation_examples:
  "re_search intel_at ''i7-1185G7'' = Some ''1185''
   \<and> parse_cpu_generation ''i7-1185G7'' = 1
   \<and> parse_cpu_generation ''i7-8565U'' = 8
   \<and> parse_cpu_generation ''i5-13500H'' = 13
   \<and> parse_cpu_generation ''i7-14700H'' = 14
   \<and> parse_cpu_generation ''Ryzen 7 5800H'' = 5
   \<and> parse_cpu_generation ''Celeron N4000'' = 0"
  by (simp add: parse_cpu_generation_def intel_at_def ryzen_generation_def ryzen_at_def
        is_digit_def is_space_def decimal_val_def digit_val_def)

section \<open>Properties of the ledger\<close>










section \<open>Properties of the floating-point numbers\<close>









section \<open>Properties of the battery probe\<close>




























end
